theory Spec2Isabelle
  imports Main
begin

section \<open>Direct Connect virtual interfaces: aws/dx_vif.go\<close>

subsection \<open>Values of the SDK and of the host library\<close>

text \<open>
  Go's \<open>error\<close> values. The SDK's \<open>awserr.Error\<close> carries \<open>Code()\<close> and
  \<open>Message()\<close>; any other error only has its text. \<open>fmt.Errorf(prefix + "%s", err)\<close>
  is kept as the prefix and the error it formats instead of the flattened text. The two
  last constructors are the poller's own failures.
\<close>

datatype error =
    AWSError string string
  | OtherError string
  | Errorf string error
  | UnexpectedStateError string
  | TimeoutError

record RouteFilterPrefix =
  Cidr :: "string option"

text \<open>
  \<open>directconnect.VirtualInterface\<close>: every field is a pointer in the SDK, so an unset
  field is \<open>None\<close>. A \<open>[]*RouteFilterPrefix\<close> is a list of pointers, \<open>None\<close> being
  nil. The elements of \<open>DescribeVirtualInterfacesOutput.VirtualInterfaces\<close> are the
  structures the SDK's decoder allocated and are taken as non-nil.
\<close>

record VirtualInterface =
  VirtualInterfaceId :: "string option"
  VirtualInterfaceName :: "string option"
  VirtualInterfaceState :: "string option"
  RouteFilterPrefixes :: "RouteFilterPrefix option list"

record DescribeVirtualInterfacesOutput =
  VirtualInterfaces :: "VirtualInterface list"

text \<open>Go's \<open>interface{}\<close>, with the dynamic types this file puts into it.\<close>

datatype interface =
    IfaceNil
  | IfaceString string
  | IfaceVif VirtualInterface

text \<open>A Go call either returns or panics (a failed type assertion, a nil dereference).\<close>

datatype 'a go_result = Returned 'a | Panic

text \<open>
  \<open>aws.StringValue\<close>, a helper of the SDK declared outside this file: the string a
  pointer points to, the empty string for nil.
\<close>

definition StringValue :: "string option \<Rightarrow> string" where
  "StringValue p = (case p of None \<Rightarrow> [] | Some s \<Rightarrow> s)"

text \<open>
  Modelled from the spec: the SDK's state constants are declared outside this file; their
  values are the state labels the spec names (pending, available, deleted, ...).
\<close>

definition VirtualInterfaceStateAvailable :: string where
  "VirtualInterfaceStateAvailable = ''available''"
definition VirtualInterfaceStateConfirming :: string where
  "VirtualInterfaceStateConfirming = ''confirming''"
definition VirtualInterfaceStateDeleted :: string where
  "VirtualInterfaceStateDeleted = ''deleted''"
definition VirtualInterfaceStateDeleting :: string where
  "VirtualInterfaceStateDeleting = ''deleting''"
definition VirtualInterfaceStateDown :: string where
  "VirtualInterfaceStateDown = ''down''"
definition VirtualInterfaceStatePending :: string where
  "VirtualInterfaceStatePending = ''pending''"
definition VirtualInterfaceStateRejected :: string where
  "VirtualInterfaceStateRejected = ''rejected''"
definition VirtualInterfaceStateVerifying :: string where
  "VirtualInterfaceStateVerifying = ''verifying''"
definition ConnectionStateDeleted :: string where
  "ConnectionStateDeleted = ''deleted''"

text \<open>\<open>time.Duration\<close> counts nanoseconds.\<close>

type_synonym Duration = nat

definition Second :: Duration where
  "Second = 1000000000"

text \<open>
  Modelled from the spec: \<open>isAWSErr\<close> is a helper of package \<open>aws\<close> declared outside this
  file; the spec only calls what it recognises here the "resource not found" condition.
  It is taken as the test its arguments name: the error is an SDK error with the given
  code whose message contains the given text (\<open>Contains s substr\<close> is \<open>strings.Contains\<close>).
\<close>

fun Contains :: "string \<Rightarrow> string \<Rightarrow> bool" where
  "Contains [] substr = (substr = [])"
| "Contains (c # s) substr =
     (take (length substr) (c # s) = substr \<or> Contains s substr)"

definition isAWSErr :: "error \<Rightarrow> string \<Rightarrow> string \<Rightarrow> bool" where
  "isAWSErr err code message =
     (case err of
        AWSError c m \<Rightarrow> c = code \<and> Contains m message
      | _ \<Rightarrow> False)"

text \<open>
  The connection \<open>conn\<close> is the remote API. \<open>DeleteVirtualInterface conn id\<close> is the error
  of the delete call (\<open>None\<close> for nil), \<open>DescribeVirtualInterfaces conn k id\<close> the answer
  to the \<open>k\<close>-th describe query for \<open>id\<close> (\<open>Inl\<close> the error).
\<close>

record DirectConnect =
  DeleteVirtualInterface :: "string \<Rightarrow> error option"
  DescribeVirtualInterfaces :: "nat \<Rightarrow> string \<Rightarrow> error + DescribeVirtualInterfacesOutput"

text \<open>\<open>schema.ResourceData\<close>: the identifier and the configured timeouts.\<close>

record ResourceData =
  Id :: string
  TimeoutCreate :: Duration
  TimeoutDelete :: Duration

subsection \<open>The poller\<close>

text \<open>What one refresh returns: Go's \<open>(interface{}, string, error)\<close>.\<close>

record RefreshResult =
  object :: interface
  state :: string
  error :: "error option"

text \<open>\<open>resource.StateChangeConf\<close>; \<open>Refresh conf k\<close> is the result of the \<open>k\<close>-th call.\<close>

record StateChangeConf =
  Pending :: "string list"
  Target :: "string list"
  Refresh :: "nat \<Rightarrow> RefreshResult"
  Timeout :: Duration
  Delay :: Duration
  MinTimeout :: Duration

text \<open>What a run of the poller did: every sleep, in order, and the number of refreshes.\<close>

record poll_log =
  sleeps :: "Duration list"
  refreshes :: nat

text \<open>
  Modelled from the spec: the poller (\<open>Poll\<close> in the spec, \<open>WaitForState\<close> of the host's
  \<open>resource\<close> package at the call sites) is not in this file. It follows the spec's
  algorithm: wait the initial delay once; refresh; an error is propagated, a target state
  returns the object, a state neither pending nor target is an \<open>UnexpectedStateError\<close>,
  a pending state goes on; the budget exhausted is a \<open>TimeoutError\<close>; otherwise sleep an
  adaptive interval, at least the minimum and bounded by what is left of the timeout, and
  refresh again. The spec leaves the adaptive interval open: \<open>adapt k\<close> is the interval
  proposed after the \<open>k\<close>-th refresh. A refresh takes no time. The loop need not end (a
  zero interval never uses up the budget), so not returning is the value \<open>None\<close>.
\<close>

definition interval :: "StateChangeConf \<Rightarrow> (nat \<Rightarrow> Duration) \<Rightarrow> nat \<Rightarrow> Duration \<Rightarrow> Duration" where
  "interval conf adapt k elapsed =
     min (Timeout conf - elapsed) (max (MinTimeout conf) (adapt k))"

partial_function (option) poll_loop ::
  "StateChangeConf \<Rightarrow> (nat \<Rightarrow> Duration) \<Rightarrow> nat \<Rightarrow> Duration \<Rightarrow> Duration list
     \<Rightarrow> ((error + interface) \<times> poll_log) option" where
  "poll_loop conf adapt k elapsed sl =
     (case error (Refresh conf k) of
        Some e \<Rightarrow> Some (Inl e, \<lparr>sleeps = sl, refreshes = Suc k\<rparr>)
      | None \<Rightarrow>
          if state (Refresh conf k) \<in> set (Target conf)
          then Some (Inr (object (Refresh conf k)), \<lparr>sleeps = sl, refreshes = Suc k\<rparr>)
          else if state (Refresh conf k) \<notin> set (Pending conf)
          then Some (Inl (UnexpectedStateError (state (Refresh conf k))),
                     \<lparr>sleeps = sl, refreshes = Suc k\<rparr>)
          else if Timeout conf \<le> elapsed
          then Some (Inl TimeoutError, \<lparr>sleeps = sl, refreshes = Suc k\<rparr>)
          else poll_loop conf adapt (Suc k) (elapsed + interval conf adapt k elapsed)
                 (sl @ [interval conf adapt k elapsed]))"

definition WaitForState ::
  "StateChangeConf \<Rightarrow> (nat \<Rightarrow> Duration) \<Rightarrow> ((error + interface) \<times> poll_log) option" where
  "WaitForState conf adapt = poll_loop conf adapt 0 (Delay conf) [Delay conf]"

text \<open>
  The run of the poller while every refresh stays pending: \<open>startTime conf adapt k\<close> is
  the time elapsed when the \<open>k\<close>-th refresh is made, \<open>sleepsBefore conf adapt k\<close> the sleeps
  made before it, and \<open>keepsPolling conf adapt j\<close> says that the \<open>j\<close>-th refresh is followed
  by another one.
\<close>

primrec startTime :: "StateChangeConf \<Rightarrow> (nat \<Rightarrow> Duration) \<Rightarrow> nat \<Rightarrow> Duration" where
  "startTime conf adapt 0 = Delay conf"
| "startTime conf adapt (Suc k) =
     startTime conf adapt k + interval conf adapt k (startTime conf adapt k)"

primrec sleepsBefore :: "StateChangeConf \<Rightarrow> (nat \<Rightarrow> Duration) \<Rightarrow> nat \<Rightarrow> Duration list" where
  "sleepsBefore conf adapt 0 = [Delay conf]"
| "sleepsBefore conf adapt (Suc k) =
     sleepsBefore conf adapt k @ [interval conf adapt k (startTime conf adapt k)]"

definition keepsPolling :: "StateChangeConf \<Rightarrow> (nat \<Rightarrow> Duration) \<Rightarrow> nat \<Rightarrow> bool" where
  "keepsPolling conf adapt j \<longleftrightarrow>
     error (Refresh conf j) = None \<and>
     state (Refresh conf j) \<notin> set (Target conf) \<and>
     state (Refresh conf j) \<in> set (Pending conf) \<and>
     startTime conf adapt j < Timeout conf"

subsection \<open>Refresh, read and delete\<close>

definition isNoSuchDxVirtualInterfaceErr :: "error \<Rightarrow> bool" where
  "isNoSuchDxVirtualInterfaceErr err =
     isAWSErr err ''DirectConnectClientException'' ''does not exist''"

text \<open>
  The closure \<open>dxVirtualInterfaceStateRefresh(conn, vifId)\<close>, at its \<open>k\<close>-th call.
\<close>

definition dxVirtualInterfaceStateRefresh :: "DirectConnect \<Rightarrow> string \<Rightarrow> nat \<Rightarrow> RefreshResult" where
  "dxVirtualInterfaceStateRefresh conn vifId k =
     (case DescribeVirtualInterfaces conn k vifId of
        Inl err \<Rightarrow>
          if isNoSuchDxVirtualInterfaceErr err
          then \<lparr>object = IfaceNil, state = VirtualInterfaceStateDeleted, error = None\<rparr>
          else \<lparr>object = IfaceNil, state = [], error = Some err\<rparr>
      | Inr resp \<Rightarrow>
          if length (VirtualInterfaces resp) < 1
          then \<lparr>object = IfaceNil, state = ConnectionStateDeleted, error = None\<rparr>
          else let vif = VirtualInterfaces resp ! 0
               in \<lparr>object = IfaceVif vif,
                   state = StringValue (VirtualInterfaceState vif), error = None\<rparr>)"

definition terminalStates :: "string \<rightharpoonup> bool" where
  "terminalStates =
     [VirtualInterfaceStateDeleted \<mapsto> True,
      VirtualInterfaceStateDeleting \<mapsto> True,
      VirtualInterfaceStateRejected \<mapsto> True]"

text \<open>
  \<open>dxVirtualInterfaceRead\<close> returns the resource data as it leaves it, the virtual
  interface and the error. The type assertion on the refreshed object panics on anything
  but a virtual interface. The log lines are left out.
\<close>

definition dxVirtualInterfaceRead ::
  "ResourceData \<Rightarrow> DirectConnect
     \<Rightarrow> (ResourceData \<times> VirtualInterface option \<times> error option) go_result" where
  "dxVirtualInterfaceRead d conn =
     (let r = dxVirtualInterfaceStateRefresh conn (Id d) 0 in
      case error r of
        Some err \<Rightarrow>
          Returned (d, None,
            Some (Errorf ''Error reading Direct Connect virtual interface: '' err))
      | None \<Rightarrow>
          (case terminalStates (state r) of
             Some ok \<Rightarrow> Returned (d\<lparr>Id := []\<rparr>, None, None)
           | None \<Rightarrow>
               (case object r of
                  IfaceVif vif \<Rightarrow> Returned (d, Some vif, None)
                | _ \<Rightarrow> Panic)))"

text \<open>The \<open>StateChangeConf\<close> that \<open>dxVirtualInterfaceDelete\<close> builds.\<close>

definition deleteStateConf :: "ResourceData \<Rightarrow> DirectConnect \<Rightarrow> StateChangeConf" where
  "deleteStateConf d conn =
     \<lparr>Pending =
        [VirtualInterfaceStateAvailable,
         VirtualInterfaceStateConfirming,
         VirtualInterfaceStateDeleting,
         VirtualInterfaceStateDown,
         VirtualInterfaceStatePending,
         VirtualInterfaceStateRejected,
         VirtualInterfaceStateVerifying],
      Target = [VirtualInterfaceStateDeleted],
      Refresh = dxVirtualInterfaceStateRefresh conn (Id d),
      Timeout = TimeoutDelete d,
      Delay = 10 * Second,
      MinTimeout = 5 * Second\<rparr>"

text \<open>
  \<open>dxVirtualInterfaceDelete\<close> returns its error (\<open>Some None\<close> is a nil error); the outer
  \<open>None\<close> is the poller not returning.
\<close>

definition dxVirtualInterfaceDelete ::
  "ResourceData \<Rightarrow> DirectConnect \<Rightarrow> (nat \<Rightarrow> Duration) \<Rightarrow> error option option" where
  "dxVirtualInterfaceDelete d conn adapt =
     (case DeleteVirtualInterface conn (Id d) of
        Some err \<Rightarrow>
          if isNoSuchDxVirtualInterfaceErr err then Some None
          else Some (Some (Errorf ''Error deleting Direct Connect virtual interface: '' err))
      | None \<Rightarrow>
          (case WaitForState (deleteStateConf d conn) adapt of
             None \<Rightarrow> None
           | Some (Inl err, lg) \<Rightarrow>
               Some (Some (Errorf
                 (''Error waiting for Direct Connect virtual interface ('' @ Id d
                    @ '') to be deleted: '') err))
           | Some (Inr obj, lg) \<Rightarrow> Some None))"

text \<open>The \<open>StateChangeConf\<close> that \<open>dxVirtualInterfaceWaitUntilAvailable\<close> builds.\<close>

definition stateConf ::
  "ResourceData \<Rightarrow> DirectConnect \<Rightarrow> string list \<Rightarrow> string list \<Rightarrow> StateChangeConf" where
  "stateConf d conn pending target =
     \<lparr>Pending = pending,
      Target = target,
      Refresh = dxVirtualInterfaceStateRefresh conn (Id d),
      Timeout = TimeoutCreate d,
      Delay = 10 * Second,
      MinTimeout = 5 * Second\<rparr>"

definition dxVirtualInterfaceWaitUntilAvailable ::
  "ResourceData \<Rightarrow> DirectConnect \<Rightarrow> string list \<Rightarrow> string list \<Rightarrow> (nat \<Rightarrow> Duration)
     \<Rightarrow> error option option" where
  "dxVirtualInterfaceWaitUntilAvailable d conn pending target adapt =
     (case WaitForState (stateConf d conn pending target) adapt of
        None \<Rightarrow> None
      | Some (Inl err, lg) \<Rightarrow>
          Some (Some (Errorf
            (''Error waiting for Direct Connect virtual interface '' @ Id d
               @ '' to become available: '') err))
      | Some (Inr obj, lg) \<Rightarrow> Some None)"

subsection \<open>Route filter prefixes\<close>

text \<open>
  \<open>expandDxRouteFilterPrefixes\<close> makes a slice of \<open>len(cfg)\<close> nil pointers and fills it by
  index; the type assertion \<open>p.(string)\<close> panics on anything but a string.
\<close>

fun expand_loop ::
  "nat \<Rightarrow> interface list \<Rightarrow> RouteFilterPrefix option list
     \<Rightarrow> RouteFilterPrefix option list go_result" where
  "expand_loop i [] prefixes = Returned prefixes"
| "expand_loop i (p # cfg) prefixes =
     (case p of
        IfaceString s \<Rightarrow>
          if i < length prefixes
          then expand_loop (Suc i) cfg (prefixes[i := Some \<lparr>Cidr = Some s\<rparr>])
          else Panic
      | _ \<Rightarrow> Panic)"

definition expandDxRouteFilterPrefixes ::
  "interface list \<Rightarrow> RouteFilterPrefix option list go_result" where
  "expandDxRouteFilterPrefixes cfg = expand_loop 0 cfg (replicate (length cfg) None)"

text \<open>
  Modelled from the spec: \<open>schema.NewSet(schema.HashString, out)\<close> belongs to the host's
  schema library and is not in this file; the spec leaves the schema format to the host.
  It is taken as the set of the items of \<open>out\<close>.
\<close>

definition NewSet_HashString :: "interface list \<Rightarrow> interface set" where
  "NewSet_HashString out = set out"

text \<open>The loop of \<open>flattenDxRouteFilterPrefixes\<close>; reading \<open>prefix.Cidr\<close> of nil panics.\<close>

fun flatten_loop ::
  "RouteFilterPrefix option list \<Rightarrow> interface list \<Rightarrow> interface list go_result" where
  "flatten_loop [] out = Returned out"
| "flatten_loop (prefix # prefixes) out =
     (case prefix of
        None \<Rightarrow> Panic
      | Some p \<Rightarrow> flatten_loop prefixes (out @ [IfaceString (StringValue (Cidr p))]))"

definition flattenDxRouteFilterPrefixes ::
  "RouteFilterPrefix option list \<Rightarrow> interface set go_result" where
  "flattenDxRouteFilterPrefixes prefixes =
     (case flatten_loop prefixes [] of
        Panic \<Rightarrow> Panic
      | Returned out \<Rightarrow> Returned (NewSet_HashString out))"

subsection \<open>Sample inputs\<close>

definition exData :: ResourceData where
  "exData = \<lparr>Id = ''dxvif-ffabc123'', TimeoutCreate = 600 * Second, TimeoutDelete = 600 * Second\<rparr>"

definition exAdapt :: "nat \<Rightarrow> Duration" where
  "exAdapt k = 100000000 * 2 ^ k"

definition exVif :: "string \<Rightarrow> VirtualInterface" where
  "exVif st =
     \<lparr>VirtualInterfaceId = Some ''dxvif-ffabc123'', VirtualInterfaceName = Some ''vif'',
      VirtualInterfaceState = Some st, RouteFilterPrefixes = []\<rparr>"

definition exNotFound :: error where
  "exNotFound =
     AWSError ''DirectConnectClientException''
       ''Virtual Interface dxvif-ffabc123 does not exist''"

definition exThrottled :: error where
  "exThrottled = AWSError ''ThrottlingException'' ''Rate exceeded''"

definition exDeleteOk :: "string \<Rightarrow> error option" where
  "exDeleteOk vifId = None"

definition exDeleteGone :: "string \<Rightarrow> error option" where
  "exDeleteGone vifId = Some exNotFound"

definition exDeleteThrottled :: "string \<Rightarrow> error option" where
  "exDeleteThrottled vifId = Some exThrottled"

definition exDescribeEmpty :: "nat \<Rightarrow> string \<Rightarrow> error + DescribeVirtualInterfacesOutput" where
  "exDescribeEmpty k vifId = Inr \<lparr>VirtualInterfaces = []\<rparr>"

definition exDescribeNotFound :: "nat \<Rightarrow> string \<Rightarrow> error + DescribeVirtualInterfacesOutput" where
  "exDescribeNotFound k vifId = Inl exNotFound"

definition exDescribeState ::
  "string \<Rightarrow> nat \<Rightarrow> string \<Rightarrow> error + DescribeVirtualInterfacesOutput" where
  "exDescribeState st k vifId = Inr \<lparr>VirtualInterfaces = [exVif st]\<rparr>"

definition exDescribeThrottled :: "nat \<Rightarrow> string \<Rightarrow> error + DescribeVirtualInterfacesOutput" where
  "exDescribeThrottled k vifId =
     (if k < 2 then Inr \<lparr>VirtualInterfaces = [exVif ''deleting'']\<rparr> else Inl exThrottled)"

definition exDescribeUnknown :: "nat \<Rightarrow> string \<Rightarrow> error + DescribeVirtualInterfacesOutput" where
  "exDescribeUnknown k vifId =
     (if k < 2 then Inr \<lparr>VirtualInterfaces = [exVif ''deleting'']\<rparr>
      else Inr \<lparr>VirtualInterfaces = [exVif ''unknown'']\<rparr>)"

definition exConn ::
  "(string \<Rightarrow> error option) \<Rightarrow> (nat \<Rightarrow> string \<Rightarrow> error + DescribeVirtualInterfacesOutput)
     \<Rightarrow> DirectConnect" where
  "exConn del desc = \<lparr>DeleteVirtualInterface = del, DescribeVirtualInterfaces = desc\<rparr>"

section \<open>Properties\<close>

subsection \<open>Shared facts\<close>

lemmas state_consts =
  VirtualInterfaceStateAvailable_def VirtualInterfaceStateConfirming_def
  VirtualInterfaceStateDeleted_def VirtualInterfaceStateDeleting_def
  VirtualInterfaceStateDown_def VirtualInterfaceStatePending_def
  VirtualInterfaceStateRejected_def VirtualInterfaceStateVerifying_def
  ConnectionStateDeleted_def

lemma exNotFound_isNoSuch: "isNoSuchDxVirtualInterfaceErr exNotFound"
  by (simp add: isNoSuchDxVirtualInterfaceErr_def isAWSErr_def exNotFound_def)

lemma exThrottled_not_isNoSuch: "\<not> isNoSuchDxVirtualInterfaceErr exThrottled"
  by (simp add: isNoSuchDxVirtualInterfaceErr_def isAWSErr_def exThrottled_def)

lemma refresh_absent:
  "(case DescribeVirtualInterfaces conn k vifId of
      Inl err \<Rightarrow> isNoSuchDxVirtualInterfaceErr err
    | Inr resp \<Rightarrow> VirtualInterfaces resp = []) \<Longrightarrow>
   dxVirtualInterfaceStateRefresh conn vifId k =
     \<lparr>object = IfaceNil, state = VirtualInterfaceStateDeleted, error = None\<rparr>"
  by (cases "DescribeVirtualInterfaces conn k vifId")
    (simp_all add: dxVirtualInterfaceStateRefresh_def state_consts)

lemma refresh_error:
  "DescribeVirtualInterfaces conn k vifId = Inl err \<Longrightarrow> \<not> isNoSuchDxVirtualInterfaceErr err \<Longrightarrow>
   dxVirtualInterfaceStateRefresh conn vifId k =
     \<lparr>object = IfaceNil, state = [], error = Some err\<rparr>"
  by (simp add: dxVirtualInterfaceStateRefresh_def)

lemma refresh_found:
  "DescribeVirtualInterfaces conn k vifId = Inr resp \<Longrightarrow> VirtualInterfaces resp = vif # rest \<Longrightarrow>
   dxVirtualInterfaceStateRefresh conn vifId k =
     \<lparr>object = IfaceVif vif, state = StringValue (VirtualInterfaceState vif), error = None\<rparr>"
  by (simp add: dxVirtualInterfaceStateRefresh_def)

lemma poll_loop_error:
  "error (Refresh conf k) = Some e \<Longrightarrow>
   poll_loop conf adapt k elapsed sl = Some (Inl e, \<lparr>sleeps = sl, refreshes = Suc k\<rparr>)"
  by (subst poll_loop.simps) simp

lemma poll_loop_target:
  "error (Refresh conf k) = None \<Longrightarrow> state (Refresh conf k) \<in> set (Target conf) \<Longrightarrow>
   poll_loop conf adapt k elapsed sl =
     Some (Inr (object (Refresh conf k)), \<lparr>sleeps = sl, refreshes = Suc k\<rparr>)"
  by (subst poll_loop.simps) simp

lemma poll_loop_unexpected:
  "error (Refresh conf k) = None \<Longrightarrow> state (Refresh conf k) \<notin> set (Target conf) \<Longrightarrow>
   state (Refresh conf k) \<notin> set (Pending conf) \<Longrightarrow>
   poll_loop conf adapt k elapsed sl =
     Some (Inl (UnexpectedStateError (state (Refresh conf k))),
           \<lparr>sleeps = sl, refreshes = Suc k\<rparr>)"
  by (subst poll_loop.simps) simp

lemma poll_loop_step:
  "keepsPolling conf adapt k \<Longrightarrow>
   poll_loop conf adapt k (startTime conf adapt k) sl =
   poll_loop conf adapt (Suc k) (startTime conf adapt (Suc k))
     (sl @ [interval conf adapt k (startTime conf adapt k)])"
  by (subst poll_loop.simps) (simp add: keepsPolling_def)

lemma poll_loop_run:
  "(\<And>j. j < k \<Longrightarrow> keepsPolling conf adapt j) \<Longrightarrow>
   WaitForState conf adapt =
     poll_loop conf adapt k (startTime conf adapt k) (sleepsBefore conf adapt k)"
proof (induction k)
  case 0
  show ?case by (simp add: WaitForState_def)
next
  case (Suc k)
  have "WaitForState conf adapt =
      poll_loop conf adapt k (startTime conf adapt k) (sleepsBefore conf adapt k)"
    using Suc by simp
  also have "\<dots> = poll_loop conf adapt (Suc k) (startTime conf adapt (Suc k))
      (sleepsBefore conf adapt (Suc k))"
    using poll_loop_step [of conf adapt k] Suc.prems [of k] by simp
  finally show ?case .
qed

lemma all_less_two: "(\<forall>j<2. P (j::nat)) \<longleftrightarrow> P 0 \<and> P (Suc 0)"
proof -
  have "\<And>j::nat. j < 2 \<longleftrightarrow> j = 0 \<or> j = 1" by arith
  then show ?thesis by auto
qed

lemma deleteStateConf_sel:
  "Pending (deleteStateConf d conn) =
     [''available'', ''confirming'', ''deleting'', ''down'', ''pending'', ''rejected'',
      ''verifying'']"
  "Target (deleteStateConf d conn) = [''deleted'']"
  "Refresh (deleteStateConf d conn) = dxVirtualInterfaceStateRefresh conn (Id d)"
  "Timeout (deleteStateConf d conn) = TimeoutDelete d"
  "Delay (deleteStateConf d conn) = 10000000000"
  "MinTimeout (deleteStateConf d conn) = 5000000000"
  by (simp_all add: deleteStateConf_def state_consts Second_def)

lemma exThrottled_run:
  "keepsPolling (deleteStateConf exData (exConn exDeleteOk exDescribeThrottled)) exAdapt 0"
  "keepsPolling (deleteStateConf exData (exConn exDeleteOk exDescribeThrottled)) exAdapt (Suc 0)"
  "sleepsBefore (deleteStateConf exData (exConn exDeleteOk exDescribeThrottled)) exAdapt 2
     = [10000000000, 5000000000, 5000000000]"
  by (simp_all add: keepsPolling_def deleteStateConf_sel dxVirtualInterfaceStateRefresh_def
      exConn_def exDescribeThrottled_def exVif_def StringValue_def exData_def Second_def
      interval_def exAdapt_def numeral_2_eq_2)

lemma exUnknown_run:
  "keepsPolling (deleteStateConf exData (exConn exDeleteOk exDescribeUnknown)) exAdapt 0"
  "keepsPolling (deleteStateConf exData (exConn exDeleteOk exDescribeUnknown)) exAdapt (Suc 0)"
  "sleepsBefore (deleteStateConf exData (exConn exDeleteOk exDescribeUnknown)) exAdapt 2
     = [10000000000, 5000000000, 5000000000]"
  "Refresh (deleteStateConf exData (exConn exDeleteOk exDescribeUnknown)) 2
     = \<lparr>object = IfaceVif (exVif ''unknown''), state = ''unknown'', error = None\<rparr>"
  by (simp_all add: keepsPolling_def deleteStateConf_sel dxVirtualInterfaceStateRefresh_def
      exConn_def exDescribeUnknown_def exVif_def StringValue_def exData_def Second_def
      interval_def exAdapt_def numeral_2_eq_2)

lemma exThrottled_wait:
  "WaitForState (deleteStateConf exData (exConn exDeleteOk exDescribeThrottled)) exAdapt =
     Some (Inl exThrottled,
           \<lparr>sleeps = [10000000000, 5000000000, 5000000000], refreshes = 3\<rparr>)"
proof -
  let ?conf = "deleteStateConf exData (exConn exDeleteOk exDescribeThrottled)"
  have e: "error (Refresh ?conf 2) = Some exThrottled"
    by (simp add: deleteStateConf_sel dxVirtualInterfaceStateRefresh_def exConn_def
        exDescribeThrottled_def exThrottled_not_isNoSuch)
  have run: "\<forall>j<2. keepsPolling ?conf exAdapt j"
    by (simp add: all_less_two exThrottled_run)
  have "WaitForState ?conf exAdapt =
      poll_loop ?conf exAdapt 2 (startTime ?conf exAdapt 2) (sleepsBefore ?conf exAdapt 2)"
    using poll_loop_run [of 2 ?conf exAdapt] run by blast
  then show ?thesis
    using poll_loop_error [OF e] by (simp add: exThrottled_run)
qed

lemma exState_refresh:
  "dxVirtualInterfaceStateRefresh (exConn exDeleteOk (exDescribeState st)) (Id exData) 0 =
     \<lparr>object = IfaceVif (exVif st), state = st, error = None\<rparr>"
  by (simp add: dxVirtualInterfaceStateRefresh_def exConn_def exDescribeState_def exVif_def
      StringValue_def)

lemma terminalStates_Some:
  "(\<exists>ok. terminalStates st = Some ok) \<longleftrightarrow> st \<in> {''deleted'', ''deleting'', ''rejected''}"
  by (auto simp: terminalStates_def state_consts split: if_splits)

lemma expand_loop_strings:
  "i + length cidrs \<le> length prefixes \<Longrightarrow>
   expand_loop i (map IfaceString cidrs) prefixes =
     Returned (take i prefixes @ map (\<lambda>s. Some \<lparr>Cidr = Some s\<rparr>) cidrs
                @ drop (i + length cidrs) prefixes)"
proof (induction cidrs arbitrary: i prefixes)
  case Nil
  then show ?case by simp
next
  case (Cons c cidrs)
  let ?v = "Some \<lparr>Cidr = Some c\<rparr>"
  have i: "i < length prefixes" using Cons.prems by simp
  have "expand_loop i (map IfaceString (c # cidrs)) prefixes =
      expand_loop (Suc i) (map IfaceString cidrs) (prefixes[i := ?v])"
    using i by simp
  also have "\<dots> = Returned (take (Suc i) (prefixes[i := ?v])
      @ map (\<lambda>s. Some \<lparr>Cidr = Some s\<rparr>) cidrs
      @ drop (Suc i + length cidrs) (prefixes[i := ?v]))"
    using Cons.prems by (intro Cons.IH) simp
  also have "take (Suc i) (prefixes[i := ?v]) = take i prefixes @ [?v]"
    using i by (simp add: take_Suc_conv_app_nth)
  also have "drop (Suc i + length cidrs) (prefixes[i := ?v]) =
      drop (i + length (c # cidrs)) prefixes"
    by simp
  finally show ?case by simp
qed

lemma expand_strings:
  "expandDxRouteFilterPrefixes (map IfaceString cidrs) =
     Returned (map (\<lambda>s. Some \<lparr>Cidr = Some s\<rparr>) cidrs)"
  using expand_loop_strings [of 0 cidrs "replicate (length cidrs) None"]
  by (simp add: expandDxRouteFilterPrefixes_def)

lemma flatten_loop_strings:
  "flatten_loop (map (\<lambda>s. Some \<lparr>Cidr = Some s\<rparr>) cidrs) out =
     Returned (out @ map IfaceString cidrs)"
  by (induction cidrs arbitrary: out) (simp_all add: StringValue_def)

subsection \<open>The refresh function\<close>

text \<open>
  C1. When the describe query succeeds with an empty list of virtual interfaces, the
  refresh function returns no object, the state label "deleted" (the value of
  \<open>VirtualInterfaceStateDeleted\<close>) and no error.
\<close>

theorem refresh_empty_list_deleted:
  "DescribeVirtualInterfaces conn k vifId = Inr resp \<Longrightarrow> VirtualInterfaces resp = [] \<Longrightarrow>
   dxVirtualInterfaceStateRefresh conn vifId k =
     \<lparr>object = IfaceNil, state = ''deleted'', error = None\<rparr> \<and>
   state (dxVirtualInterfaceStateRefresh conn vifId k) = VirtualInterfaceStateDeleted"
  by (simp add: dxVirtualInterfaceStateRefresh_def state_consts)

theorem refresh_empty_list_deleted_witness:
  "DescribeVirtualInterfaces (exConn exDeleteOk exDescribeEmpty) 0 ''dxvif-ffabc123''
     = Inr \<lparr>VirtualInterfaces = []\<rparr> \<and>
   dxVirtualInterfaceStateRefresh (exConn exDeleteOk exDescribeEmpty) ''dxvif-ffabc123'' 0 =
     \<lparr>object = IfaceNil, state = ''deleted'', error = None\<rparr>"
  using refresh_empty_list_deleted
    [of "exConn exDeleteOk exDescribeEmpty" 0 "''dxvif-ffabc123''" "\<lparr>VirtualInterfaces = []\<rparr>"]
  by (simp add: exConn_def exDescribeEmpty_def)

text \<open>
  C2. When the describe query fails with an error that \<open>isNoSuchDxVirtualInterfaceErr\<close>
  recognises (resource not found), the refresh function returns no object, the state
  label "deleted" and no error: the error is not propagated.
\<close>

theorem refresh_not_found_deleted:
  "DescribeVirtualInterfaces conn k vifId = Inl err \<Longrightarrow> isNoSuchDxVirtualInterfaceErr err \<Longrightarrow>
   dxVirtualInterfaceStateRefresh conn vifId k =
     \<lparr>object = IfaceNil, state = ''deleted'', error = None\<rparr> \<and>
   state (dxVirtualInterfaceStateRefresh conn vifId k) = VirtualInterfaceStateDeleted"
  by (simp add: dxVirtualInterfaceStateRefresh_def state_consts)

theorem refresh_not_found_deleted_witness:
  "DescribeVirtualInterfaces (exConn exDeleteOk exDescribeNotFound) 0 ''dxvif-ffabc123''
     = Inl exNotFound \<and>
   isNoSuchDxVirtualInterfaceErr exNotFound \<and>
   dxVirtualInterfaceStateRefresh (exConn exDeleteOk exDescribeNotFound) ''dxvif-ffabc123'' 0 =
     \<lparr>object = IfaceNil, state = ''deleted'', error = None\<rparr>"
  using refresh_not_found_deleted
    [of "exConn exDeleteOk exDescribeNotFound" 0 "''dxvif-ffabc123''" exNotFound]
    exNotFound_isNoSuch
  by (simp add: exConn_def exDescribeNotFound_def)

subsection \<open>The poller\<close>

text \<open>
  C3 (as amended). When the first refresh succeeds with a state of the target set, the
  poller returns that refresh's object after this single refresh; the only sleep before
  the return is the initial delay, and no interval between attempts is slept.
\<close>

theorem poll_first_target_returns:
  "error (Refresh conf 0) = None \<Longrightarrow> state (Refresh conf 0) \<in> set (Target conf) \<Longrightarrow>
   WaitForState conf adapt =
     Some (Inr (object (Refresh conf 0)), \<lparr>sleeps = [Delay conf], refreshes = 1\<rparr>)"
  by (simp add: WaitForState_def poll_loop_target)

theorem poll_first_target_returns_witness:
  "error (Refresh (stateConf exData (exConn exDeleteOk (exDescribeState ''available''))
            [''pending''] [''available'', ''down'']) 0) = None \<and>
   state (Refresh (stateConf exData (exConn exDeleteOk (exDescribeState ''available''))
            [''pending''] [''available'', ''down'']) 0)
     \<in> set (Target (stateConf exData (exConn exDeleteOk (exDescribeState ''available''))
            [''pending''] [''available'', ''down''])) \<and>
   WaitForState (stateConf exData (exConn exDeleteOk (exDescribeState ''available''))
       [''pending''] [''available'', ''down'']) exAdapt =
     Some (Inr (IfaceVif (exVif ''available'')),
           \<lparr>sleeps = [10000000000], refreshes = 1\<rparr>)"
  using poll_first_target_returns
    [of "stateConf exData (exConn exDeleteOk (exDescribeState ''available''))
           [''pending''] [''available'', ''down'']" exAdapt]
  by (simp add: stateConf_def exConn_def exDescribeState_def exData_def exVif_def
      dxVirtualInterfaceStateRefresh_def StringValue_def Second_def)

text \<open>
  C3 as stated fails: the poller of the delete operation, whose first refresh finds the
  virtual interface gone (a target state), has slept its initial delay of ten seconds
  before it returns, so its sleeps are not none.
\<close>

theorem poll_first_target_sleeps_counterexample:
  "error (Refresh (deleteStateConf exData (exConn exDeleteOk exDescribeEmpty)) 0) = None \<and>
   state (Refresh (deleteStateConf exData (exConn exDeleteOk exDescribeEmpty)) 0)
     \<in> set (Target (deleteStateConf exData (exConn exDeleteOk exDescribeEmpty))) \<and>
   WaitForState (deleteStateConf exData (exConn exDeleteOk exDescribeEmpty)) exAdapt =
     Some (Inr IfaceNil, \<lparr>sleeps = [10000000000], refreshes = 1\<rparr>) \<and>
   WaitForState (deleteStateConf exData (exConn exDeleteOk exDescribeEmpty)) exAdapt \<noteq>
     Some (Inr IfaceNil, \<lparr>sleeps = [], refreshes = 1\<rparr>)"
proof -
  let ?conf = "deleteStateConf exData (exConn exDeleteOk exDescribeEmpty)"
  have r: "Refresh ?conf 0 =
      \<lparr>object = IfaceNil, state = VirtualInterfaceStateDeleted, error = None\<rparr>"
    by (simp add: deleteStateConf_def refresh_absent exConn_def exDescribeEmpty_def)
  have t: "Target ?conf = [VirtualInterfaceStateDeleted]"
    by (simp add: deleteStateConf_def)
  have d: "Delay ?conf = 10000000000"
    by (simp add: deleteStateConf_def Second_def)
  have "WaitForState ?conf exAdapt =
      Some (Inr IfaceNil, \<lparr>sleeps = [10000000000], refreshes = 1\<rparr>)"
    unfolding WaitForState_def by (subst poll_loop.simps) (simp add: r t d)
  then show ?thesis by (simp add: r t)
qed

text \<open>
  C4. When the poller's \<open>k\<close>-th refresh is reached (every earlier one stayed pending
  within the budget) and its describe query fails with an error that is not the not-found
  condition, the poller returns exactly that error, and this refresh is the last one:
  \<open>Suc k\<close> refreshes are made in all.
\<close>

theorem poll_refresh_error_propagates:
  "Refresh conf = dxVirtualInterfaceStateRefresh conn vifId \<Longrightarrow>
   \<forall>j<k. keepsPolling conf adapt j \<Longrightarrow>
   DescribeVirtualInterfaces conn k vifId = Inl err \<Longrightarrow>
   \<not> isNoSuchDxVirtualInterfaceErr err \<Longrightarrow>
   WaitForState conf adapt =
     Some (Inl err, \<lparr>sleeps = sleepsBefore conf adapt k, refreshes = Suc k\<rparr>)"
proof -
  assume r: "Refresh conf = dxVirtualInterfaceStateRefresh conn vifId"
    and run: "\<forall>j<k. keepsPolling conf adapt j"
    and d: "DescribeVirtualInterfaces conn k vifId = Inl err"
    and n: "\<not> isNoSuchDxVirtualInterfaceErr err"
  have "error (Refresh conf k) = Some err"
    using r refresh_error [OF d n] by simp
  then show ?thesis
    using poll_loop_run [of k conf adapt] run by (simp add: poll_loop_error)
qed

theorem poll_refresh_error_propagates_witness:
  "Refresh (deleteStateConf exData (exConn exDeleteOk exDescribeThrottled))
     = dxVirtualInterfaceStateRefresh (exConn exDeleteOk exDescribeThrottled) ''dxvif-ffabc123'' \<and>
   keepsPolling (deleteStateConf exData (exConn exDeleteOk exDescribeThrottled)) exAdapt 0 \<and>
   keepsPolling (deleteStateConf exData (exConn exDeleteOk exDescribeThrottled)) exAdapt (Suc 0) \<and>
   DescribeVirtualInterfaces (exConn exDeleteOk exDescribeThrottled) 2 ''dxvif-ffabc123''
     = Inl exThrottled \<and>
   \<not> isNoSuchDxVirtualInterfaceErr exThrottled \<and>
   WaitForState (deleteStateConf exData (exConn exDeleteOk exDescribeThrottled)) exAdapt =
     Some (Inl exThrottled,
           \<lparr>sleeps = [10000000000, 5000000000, 5000000000], refreshes = 3\<rparr>)"
proof -
  let ?conn = "exConn exDeleteOk exDescribeThrottled"
  let ?conf = "deleteStateConf exData ?conn"
  have r: "Refresh ?conf = dxVirtualInterfaceStateRefresh ?conn ''dxvif-ffabc123''"
    by (simp add: deleteStateConf_sel exData_def)
  have run: "\<forall>j<2. keepsPolling ?conf exAdapt j"
    by (simp add: all_less_two exThrottled_run)
  have d: "DescribeVirtualInterfaces ?conn 2 ''dxvif-ffabc123'' = Inl exThrottled"
    by (simp add: exConn_def exDescribeThrottled_def)
  show ?thesis
    using poll_refresh_error_propagates [OF r run d exThrottled_not_isNoSuch]
      r d exThrottled_not_isNoSuch
    by (simp add: exThrottled_run)
qed

text \<open>
  C5. When the poller's \<open>k\<close>-th refresh is reached and succeeds with a state that is
  neither pending nor target, the poller fails with an \<open>UnexpectedStateError\<close> naming
  that state, at this refresh, whatever is left of the timeout at that moment (nothing is
  assumed of the time elapsed at the \<open>k\<close>-th refresh).
\<close>

theorem poll_unexpected_state:
  "\<forall>j<k. keepsPolling conf adapt j \<Longrightarrow>
   error (Refresh conf k) = None \<Longrightarrow>
   state (Refresh conf k) \<notin> set (Pending conf) \<Longrightarrow>
   state (Refresh conf k) \<notin> set (Target conf) \<Longrightarrow>
   WaitForState conf adapt =
     Some (Inl (UnexpectedStateError (state (Refresh conf k))),
           \<lparr>sleeps = sleepsBefore conf adapt k, refreshes = Suc k\<rparr>)"
  using poll_loop_run [of k conf adapt] by (simp add: poll_loop_unexpected)

theorem poll_unexpected_state_witness:
  "keepsPolling (deleteStateConf exData (exConn exDeleteOk exDescribeUnknown)) exAdapt 0 \<and>
   keepsPolling (deleteStateConf exData (exConn exDeleteOk exDescribeUnknown)) exAdapt (Suc 0) \<and>
   error (Refresh (deleteStateConf exData (exConn exDeleteOk exDescribeUnknown)) 2) = None \<and>
   state (Refresh (deleteStateConf exData (exConn exDeleteOk exDescribeUnknown)) 2)
     \<notin> set (Pending (deleteStateConf exData (exConn exDeleteOk exDescribeUnknown))) \<and>
   state (Refresh (deleteStateConf exData (exConn exDeleteOk exDescribeUnknown)) 2)
     \<notin> set (Target (deleteStateConf exData (exConn exDeleteOk exDescribeUnknown))) \<and>
   WaitForState (deleteStateConf exData (exConn exDeleteOk exDescribeUnknown)) exAdapt =
     Some (Inl (UnexpectedStateError ''unknown''),
           \<lparr>sleeps = [10000000000, 5000000000, 5000000000], refreshes = 3\<rparr>)"
proof -
  let ?conf = "deleteStateConf exData (exConn exDeleteOk exDescribeUnknown)"
  have run: "\<forall>j<2. keepsPolling ?conf exAdapt j"
    by (simp add: all_less_two exUnknown_run)
  have e: "error (Refresh ?conf 2) = None"
    by (simp add: exUnknown_run)
  have p: "state (Refresh ?conf 2) \<notin> set (Pending ?conf)"
    by (simp only: exUnknown_run) (simp add: deleteStateConf_sel)
  have t: "state (Refresh ?conf 2) \<notin> set (Target ?conf)"
    by (simp only: exUnknown_run) (simp add: deleteStateConf_sel)
  show ?thesis
    using poll_unexpected_state [OF run e p t] e p t
    by (simp add: exUnknown_run)
qed

text \<open>
  C6. When the virtual interface is already absent at the first refresh (the describe query
  answers with an empty list or with the not-found error, which the refresh function maps
  to "deleted") and the target set is {"deleted"}, the poller succeeds after this one
  refresh and returns no object.
\<close>

theorem poll_absent_first_refresh_succeeds:
  "set (Target conf) = {VirtualInterfaceStateDeleted} \<Longrightarrow>
   Refresh conf = dxVirtualInterfaceStateRefresh conn vifId \<Longrightarrow>
   (case DescribeVirtualInterfaces conn 0 vifId of
      Inl err \<Rightarrow> isNoSuchDxVirtualInterfaceErr err
    | Inr resp \<Rightarrow> VirtualInterfaces resp = []) \<Longrightarrow>
   WaitForState conf adapt =
     Some (Inr IfaceNil, \<lparr>sleeps = [Delay conf], refreshes = 1\<rparr>)"
proof -
  assume t: "set (Target conf) = {VirtualInterfaceStateDeleted}"
    and r: "Refresh conf = dxVirtualInterfaceStateRefresh conn vifId"
    and a: "case DescribeVirtualInterfaces conn 0 vifId of
              Inl err \<Rightarrow> isNoSuchDxVirtualInterfaceErr err
            | Inr resp \<Rightarrow> VirtualInterfaces resp = []"
  have "Refresh conf 0 =
      \<lparr>object = IfaceNil, state = VirtualInterfaceStateDeleted, error = None\<rparr>"
    using r refresh_absent [OF a] by simp
  then show ?thesis
    using t poll_loop_target [of conf 0 adapt "Delay conf" "[Delay conf]"]
    by (simp add: WaitForState_def)
qed

theorem poll_absent_first_refresh_succeeds_witness:
  "set (Target (deleteStateConf exData (exConn exDeleteOk exDescribeNotFound)))
     = {VirtualInterfaceStateDeleted} \<and>
   isNoSuchDxVirtualInterfaceErr exNotFound \<and>
   WaitForState (deleteStateConf exData (exConn exDeleteOk exDescribeNotFound)) exAdapt =
     Some (Inr IfaceNil, \<lparr>sleeps = [10000000000], refreshes = 1\<rparr>)"
proof -
  let ?conn = "exConn exDeleteOk exDescribeNotFound"
  let ?conf = "deleteStateConf exData ?conn"
  have t: "set (Target ?conf) = {VirtualInterfaceStateDeleted}"
    by (simp add: deleteStateConf_def)
  have r: "Refresh ?conf = dxVirtualInterfaceStateRefresh ?conn (Id exData)"
    by (simp add: deleteStateConf_def)
  have a: "case DescribeVirtualInterfaces ?conn 0 (Id exData) of
             Inl err \<Rightarrow> isNoSuchDxVirtualInterfaceErr err
           | Inr resp \<Rightarrow> VirtualInterfaces resp = []"
    by (simp add: exConn_def exDescribeNotFound_def exNotFound_isNoSuch)
  show ?thesis
    using poll_absent_first_refresh_succeeds [OF t r a, of exAdapt] t exNotFound_isNoSuch
    by (simp add: deleteStateConf_sel)
qed

subsection \<open>The poller's configurations\<close>



subsection \<open>Delete and read\<close>

text \<open>
  C7. When the delete call fails with the not-found error, \<open>dxVirtualInterfaceDelete\<close>
  returns a nil error. Every other error of the delete call is returned to the caller,
  wrapped by "Error deleting Direct Connect virtual interface", and so is every failure
  of the poller after a delete call that succeeded.
\<close>

theorem delete_swallows_only_not_found:
  "(DeleteVirtualInterface conn (Id d) = Some err \<and> isNoSuchDxVirtualInterfaceErr err \<longrightarrow>
      dxVirtualInterfaceDelete d conn adapt = Some None) \<and>
   (DeleteVirtualInterface conn (Id d) = Some err \<and> \<not> isNoSuchDxVirtualInterfaceErr err \<longrightarrow>
      dxVirtualInterfaceDelete d conn adapt =
        Some (Some (Errorf ''Error deleting Direct Connect virtual interface: '' err))) \<and>
   (DeleteVirtualInterface conn (Id d) = None \<and>
    WaitForState (deleteStateConf d conn) adapt = Some (Inl perr, lg) \<longrightarrow>
      dxVirtualInterfaceDelete d conn adapt =
        Some (Some (Errorf
          (''Error waiting for Direct Connect virtual interface ('' @ Id d
             @ '') to be deleted: '') perr)))"
  by (simp add: dxVirtualInterfaceDelete_def)

theorem delete_swallows_only_not_found_witness:
  "DeleteVirtualInterface (exConn exDeleteGone exDescribeEmpty) (Id exData) = Some exNotFound \<and>
   isNoSuchDxVirtualInterfaceErr exNotFound \<and>
   dxVirtualInterfaceDelete exData (exConn exDeleteGone exDescribeEmpty) exAdapt = Some None \<and>
   DeleteVirtualInterface (exConn exDeleteThrottled exDescribeEmpty) (Id exData)
     = Some exThrottled \<and>
   \<not> isNoSuchDxVirtualInterfaceErr exThrottled \<and>
   dxVirtualInterfaceDelete exData (exConn exDeleteThrottled exDescribeEmpty) exAdapt =
     Some (Some (Errorf ''Error deleting Direct Connect virtual interface: '' exThrottled)) \<and>
   DeleteVirtualInterface (exConn exDeleteOk exDescribeThrottled) (Id exData) = None \<and>
   dxVirtualInterfaceDelete exData (exConn exDeleteOk exDescribeThrottled) exAdapt =
     Some (Some (Errorf
       ''Error waiting for Direct Connect virtual interface (dxvif-ffabc123) to be deleted: ''
       exThrottled))"
proof -
  have a: "DeleteVirtualInterface (exConn exDeleteGone exDescribeEmpty) (Id exData)
      = Some exNotFound"
    by (simp add: exConn_def exDeleteGone_def)
  have b: "DeleteVirtualInterface (exConn exDeleteThrottled exDescribeEmpty) (Id exData)
      = Some exThrottled"
    by (simp add: exConn_def exDeleteThrottled_def)
  have c: "DeleteVirtualInterface (exConn exDeleteOk exDescribeThrottled) (Id exData) = None"
    by (simp add: exConn_def exDeleteOk_def)
  have i: "Id exData = ''dxvif-ffabc123''"
    by (simp add: exData_def)
  show ?thesis
    using
      delete_swallows_only_not_found
        [of "exConn exDeleteGone exDescribeEmpty" exData exNotFound exAdapt]
      delete_swallows_only_not_found
        [of "exConn exDeleteThrottled exDescribeEmpty" exData exThrottled exAdapt]
      delete_swallows_only_not_found
        [of "exConn exDeleteOk exDescribeThrottled" exData _ exAdapt exThrottled
           "\<lparr>sleeps = [10000000000, 5000000000, 5000000000], refreshes = 3\<rparr>"]
      a b c exNotFound_isNoSuch exThrottled_not_isNoSuch exThrottled_wait
    by (simp add: i)
qed

text \<open>
  C9. When the refresh of \<open>dxVirtualInterfaceRead\<close> succeeds: if the observed state is
  deleted, deleting or rejected, the read sets the identifier to the empty string and
  returns a nil virtual interface and a nil error; otherwise it leaves the resource data
  unchanged and returns the refreshed virtual interface with a nil error.
\<close>

theorem read_terminal_clears_id:
  "error (dxVirtualInterfaceStateRefresh conn (Id d) 0) = None \<Longrightarrow>
   (state (dxVirtualInterfaceStateRefresh conn (Id d) 0)
       \<in> {VirtualInterfaceStateDeleted, VirtualInterfaceStateDeleting,
          VirtualInterfaceStateRejected} \<longrightarrow>
      dxVirtualInterfaceRead d conn = Returned (d\<lparr>Id := []\<rparr>, None, None)) \<and>
   (state (dxVirtualInterfaceStateRefresh conn (Id d) 0)
       \<notin> {VirtualInterfaceStateDeleted, VirtualInterfaceStateDeleting,
          VirtualInterfaceStateRejected} \<longrightarrow>
      (\<exists>vif. object (dxVirtualInterfaceStateRefresh conn (Id d) 0) = IfaceVif vif \<and>
             dxVirtualInterfaceRead d conn = Returned (d, Some vif, None)))"
proof -
  let ?r = "dxVirtualInterfaceStateRefresh conn (Id d) 0"
  assume e: "error ?r = None"
  have gone: "state ?r \<in> {VirtualInterfaceStateDeleted, VirtualInterfaceStateDeleting,
      VirtualInterfaceStateRejected} \<Longrightarrow>
      dxVirtualInterfaceRead d conn = Returned (d\<lparr>Id := []\<rparr>, None, None)"
  proof -
    assume "state ?r \<in> {VirtualInterfaceStateDeleted, VirtualInterfaceStateDeleting,
      VirtualInterfaceStateRejected}"
    then obtain ok where "terminalStates (state ?r) = Some ok"
      using terminalStates_Some [of "state ?r"] by (auto simp: state_consts)
    then show ?thesis using e by (simp add: dxVirtualInterfaceRead_def Let_def)
  qed
  have live: "state ?r \<notin> {VirtualInterfaceStateDeleted, VirtualInterfaceStateDeleting,
      VirtualInterfaceStateRejected} \<Longrightarrow>
      \<exists>vif. object ?r = IfaceVif vif \<and>
        dxVirtualInterfaceRead d conn = Returned (d, Some vif, None)"
  proof -
    assume n: "state ?r \<notin> {VirtualInterfaceStateDeleted, VirtualInterfaceStateDeleting,
      VirtualInterfaceStateRejected}"
    then have none: "terminalStates (state ?r) = None"
      using terminalStates_Some [of "state ?r"] by (cases "terminalStates (state ?r)") (auto simp: state_consts)
    have "\<exists>vif. object ?r = IfaceVif vif"
    proof (cases "DescribeVirtualInterfaces conn 0 (Id d)")
      case (Inl err)
      then show ?thesis
        using e n by (simp add: dxVirtualInterfaceStateRefresh_def split: if_splits)
    next
      case (Inr resp)
      then show ?thesis
        using n by (simp add: dxVirtualInterfaceStateRefresh_def state_consts Let_def split: if_splits)
    qed
    then obtain vif where "object ?r = IfaceVif vif" ..
    then show ?thesis using e none by (simp add: dxVirtualInterfaceRead_def Let_def)
  qed
  from gone live show ?thesis by blast
qed

theorem read_terminal_clears_id_witness:
  "error (dxVirtualInterfaceStateRefresh (exConn exDeleteOk (exDescribeState ''rejected''))
            (Id exData) 0) = None \<and>
   state (dxVirtualInterfaceStateRefresh (exConn exDeleteOk (exDescribeState ''rejected''))
            (Id exData) 0) = VirtualInterfaceStateRejected \<and>
   dxVirtualInterfaceRead exData (exConn exDeleteOk (exDescribeState ''rejected'')) =
     Returned (exData\<lparr>Id := []\<rparr>, None, None) \<and>
   error (dxVirtualInterfaceStateRefresh (exConn exDeleteOk (exDescribeState ''available''))
            (Id exData) 0) = None \<and>
   state (dxVirtualInterfaceStateRefresh (exConn exDeleteOk (exDescribeState ''available''))
            (Id exData) 0) = ''available'' \<and>
   dxVirtualInterfaceRead exData (exConn exDeleteOk (exDescribeState ''available'')) =
     Returned (exData, Some (exVif ''available''), None)"
  using
    read_terminal_clears_id [of "exConn exDeleteOk (exDescribeState ''rejected'')" exData]
    read_terminal_clears_id [of "exConn exDeleteOk (exDescribeState ''available'')" exData]
  by (simp add: exState_refresh state_consts)

subsection \<open>Route filter prefixes\<close>

text \<open>
  C10. For every list of CIDR strings, \<open>expandDxRouteFilterPrefixes\<close> returns a slice of
  the same length whose \<open>i\<close>-th element holds the \<open>i\<close>-th string, and
  \<open>flattenDxRouteFilterPrefixes\<close> of that slice is the set of exactly the strings of the
  list.
\<close>

theorem expand_flatten_route_filter_prefixes:
  "\<exists>ps. expandDxRouteFilterPrefixes (map IfaceString cidrs) = Returned ps \<and>
     length ps = length cidrs \<and>
     (\<forall>i<length cidrs. ps ! i = Some \<lparr>Cidr = Some (cidrs ! i)\<rparr>) \<and>
     flattenDxRouteFilterPrefixes ps = Returned (IfaceString ` set cidrs)"
proof -
  let ?ps = "map (\<lambda>s. Some \<lparr>Cidr = Some s\<rparr>) cidrs"
  have "flattenDxRouteFilterPrefixes ?ps = Returned (IfaceString ` set cidrs)"
    by (simp add: flattenDxRouteFilterPrefixes_def flatten_loop_strings NewSet_HashString_def)
  then show ?thesis
    using expand_strings [of cidrs] by simp
qed

theorem expand_flatten_route_filter_prefixes_witness:
  "expandDxRouteFilterPrefixes
     [IfaceString ''10.0.0.0/24'', IfaceString ''192.168.0.0/16'', IfaceString ''10.0.0.0/24''] =
     Returned [Some \<lparr>Cidr = Some ''10.0.0.0/24''\<rparr>, Some \<lparr>Cidr = Some ''192.168.0.0/16''\<rparr>,
               Some \<lparr>Cidr = Some ''10.0.0.0/24''\<rparr>] \<and>
   flattenDxRouteFilterPrefixes
     [Some \<lparr>Cidr = Some ''10.0.0.0/24''\<rparr>, Some \<lparr>Cidr = Some ''192.168.0.0/16''\<rparr>,
      Some \<lparr>Cidr = Some ''10.0.0.0/24''\<rparr>] =
     Returned {IfaceString ''10.0.0.0/24'', IfaceString ''192.168.0.0/16''}"
proof -
  let ?cidrs = "[''10.0.0.0/24'', ''192.168.0.0/16'', ''10.0.0.0/24'']"
  let ?ps = "[Some \<lparr>Cidr = Some ''10.0.0.0/24''\<rparr>, Some \<lparr>Cidr = Some ''192.168.0.0/16''\<rparr>,
      Some \<lparr>Cidr = Some ''10.0.0.0/24''\<rparr>]"
  obtain ps where e: "expandDxRouteFilterPrefixes (map IfaceString ?cidrs) = Returned ps"
    and f: "flattenDxRouteFilterPrefixes ps = Returned (IfaceString ` set ?cidrs)"
    using expand_flatten_route_filter_prefixes [of ?cidrs] by blast
  have "expandDxRouteFilterPrefixes (map IfaceString ?cidrs) = Returned ?ps"
    by (simp add: expandDxRouteFilterPrefixes_def numeral_3_eq_3)
  with e have "ps = ?ps" by simp
  with e f show ?thesis by (simp add: insert_commute)
qed

end
